theory Spec2Isabelle
  imports Complex_Main "HOL-Library.Multiset"
begin

section \<open>Python values shared by the modules\<close>

text \<open>
  The exceptions the modelled code can raise.  A function that may raise returns
  \<open>error + 'a\<close> (\<open>Inl\<close> is the raise), or, when it also changes state, the new state
  together with \<open>error option\<close> (\<open>Some\<close> is the raise, \<open>None\<close> a normal return).
  \<open>OtherError\<close> stands for any exception class that no handler of the code names.
\<close>

datatype error =
    KeyError "string list"
  | ValueError string
  | TypeError string
  | IndexError string
  | AttributeError string
  | NotImplementedError string
  | FileNotFoundError string
  | ZeroDivisionError string
  | OtherError string

text \<open>
  \<open>str.split(sep)\<close> with a one-character separator, and \<open>re.split\<close> on a character
  class: the string is cut at every separator, so the result always has at least one
  (possibly empty) piece.
\<close>

fun split_on :: "(char \<Rightarrow> bool) \<Rightarrow> string \<Rightarrow> string list" where
  "split_on is_sep [] = [[]]"
| "split_on is_sep (c # cs) =
     (if is_sep c then [] # split_on is_sep cs
      else (case split_on is_sep cs of
              [] \<Rightarrow> [[c]]
            | w # ws \<Rightarrow> (c # w) # ws))"

definition str_split :: "char \<Rightarrow> string \<Rightarrow> string list" where
  "str_split sep s = split_on (\<lambda>c. c = sep) s"

text \<open>\<open>min(...)\<close> and \<open>max(...)\<close> of a list: both raise on an empty list.\<close>

fun py_min :: "rat list \<Rightarrow> error + rat" where
  "py_min [] = Inl (ValueError ''min() arg is an empty sequence'')"
| "py_min (x # xs) = Inr (fold min xs x)"

fun py_max :: "rat list \<Rightarrow> error + rat" where
  "py_max [] = Inl (ValueError ''max() arg is an empty sequence'')"
| "py_max (x # xs) = Inr (fold max xs x)"


section \<open>util.py\<close>

subsection \<open>task\_timer\<close>

text \<open>
  Wall-clock time is a rational number of seconds since the epoch (the value of
  \<open>UTCDateTime().timestamp\<close>, without the rounding of a float).  \<open>py_mod\<close> is Python's
  \<open>%\<close> of a float by a non-zero integer: the remainder has the sign of the divisor.
\<close>

definition py_mod :: "rat \<Rightarrow> int \<Rightarrow> rat" where
  "py_mod x m = x - of_int \<lfloor>x / of_int m\<rfloor> * of_int m"

text \<open>\<open>interval - (now.timestamp % interval)\<close>; the modulo raises for \<open>interval = 0\<close>.\<close>

definition delay_to_next_interval :: "int \<Rightarrow> rat \<Rightarrow> error + rat" where
  "delay_to_next_interval interval now =
     (if interval = 0 then Inl (ZeroDivisionError ''float modulo'')
      else Inr (of_int interval - py_mod now interval))"

text \<open>
  \<open>time.sleep(d)\<close>: raises for a negative length, otherwise the clock has advanced by
  \<open>d\<close> when it returns (the model's sleep wakes exactly on time).
\<close>

definition sleep :: "rat \<Rightarrow> rat \<Rightarrow> error + rat" where
  "sleep clock d =
     (if d < 0 then Inl (ValueError ''sleep length must be non-negative'')
      else Inr (clock + d))"

text \<open>
  The state of the timer thread: the clock and the stop event.  The callback is a
  parameter: called at clock \<open>t\<close> it gives the clock at which it is done and whether it
  raised.  \<open>stop_set\<close> says whether another thread has set the stop event by a given time.
\<close>

record timer =
  clock :: rat
  stop_event :: bool

datatype exit = Running | Returned | Raised error

text \<open>
  The \<open>while not stop_event.is_set()\<close> loop.  It can run forever, so it takes the number
  of iterations to follow as fuel and answers \<open>Running\<close> when they are used up.  The first
  component lists the clock values at which the callback was invoked.  The logger calls
  of the source do not touch the clock and are left out.
\<close>

fun timer_loop ::
  "nat \<Rightarrow> int \<Rightarrow> (rat \<Rightarrow> rat \<times> bool) \<Rightarrow> (rat \<Rightarrow> bool) \<Rightarrow> timer \<Rightarrow> rat list \<times> timer \<times> exit" where
  "timer_loop 0 interval callback stop_set s = ([], s, Running)"
| "timer_loop (Suc n) interval callback stop_set s =
     (if stop_event s \<or> stop_set (clock s) then ([], s, Returned)
      else
        let (done, raised) = callback (clock s);
            s1 = s\<lparr>clock := done, stop_event := stop_event s \<or> raised\<rparr>
        in case delay_to_next_interval interval (clock s1) of
             Inl e \<Rightarrow> ([clock s], s1, Raised e)
           | Inr d \<Rightarrow>
               (case sleep (clock s1) d of
                  Inl e \<Rightarrow> ([clock s], s1, Raised e)
                | Inr woke \<Rightarrow>
                    (let (ticks, s2, ex) = timer_loop n interval callback stop_set (s1\<lparr>clock := woke\<rparr>)
                     in (clock s # ticks, s2, ex))))"

definition task_timer ::
  "nat \<Rightarrow> (rat \<Rightarrow> rat \<times> bool) \<Rightarrow> int \<Rightarrow> (rat \<Rightarrow> bool) \<Rightarrow> rat \<Rightarrow> rat list \<times> timer \<times> exit" where
  "task_timer fuel callback interval stop_set now =
     (let s = \<lparr>clock = now, stop_event = False\<rparr>
      in case delay_to_next_interval interval now of
           Inl e \<Rightarrow> ([], s, Raised e)
         | Inr d \<Rightarrow>
             (case sleep now d of
                Inl e \<Rightarrow> ([], s, Raised e)
              | Inr woke \<Rightarrow> timer_loop fuel interval callback stop_set (s\<lparr>clock := woke\<rparr>)))"


text \<open>
  The instant the specification names: \<open>t\<close> is the next multiple of the interval after
  the clock value \<open>c\<close>, that is, a multiple of the interval later than \<open>c\<close> and at most
  one interval later.
\<close>

definition aligned_after :: "int \<Rightarrow> rat \<Rightarrow> rat \<Rightarrow> bool" where
  "aligned_after interval c t =
     ((\<exists>k. t = of_int (k * interval)) \<and> c < t \<and> t \<le> c + of_int interval)"

text \<open>
  The schedule the specification describes, with the clock arithmetic of the source
  left out: from the clock value \<open>c\<close> the next boundary is the next multiple of the
  interval; on a boundary the timer stops when the stop signal is set, and otherwise
  invokes the callback there; when the callback raised it stops, and otherwise the next
  boundary is taken from the clock at which the callback was done.  The first argument
  bounds the number of boundaries that are followed.
\<close>

definition next_boundary :: "int \<Rightarrow> rat \<Rightarrow> rat" where
  "next_boundary interval c = of_int ((\<lfloor>c / of_int interval\<rfloor> + 1) * interval)"

fun schedule :: "nat \<Rightarrow> int \<Rightarrow> (rat \<Rightarrow> rat \<times> bool) \<Rightarrow> (rat \<Rightarrow> bool) \<Rightarrow> rat \<Rightarrow> rat list" where
  "schedule 0 interval callback stop_set c = []"
| "schedule (Suc n) interval callback stop_set c =
     (let b = next_boundary interval c
      in if stop_set b then []
         else if snd (callback b) then [b]
         else b # schedule n interval callback stop_set (fst (callback b)))"


subsection \<open>AttribDict\<close>

text \<open>
  An \<open>AttribDict\<close> is a \<open>dict\<close>: a finite map from attribute names to values.  The three
  methods of the class are the hooks Python calls for \<open>d.name\<close> (only after the default
  lookup has failed), \<open>d.name = v\<close> and \<open>del d.name\<close>; \<open>dict_getitem\<close> is \<open>d[name]\<close>.
\<close>

type_synonym 'v attribdict = "string \<rightharpoonup> 'v"

definition dict_getitem :: "'v attribdict \<Rightarrow> string \<Rightarrow> error + 'v" where
  "dict_getitem self name =
     (case self name of
        Some v \<Rightarrow> Inr v
      | None \<Rightarrow> Inl (KeyError [name]))"

definition AttribDict_getattr :: "'v attribdict \<Rightarrow> string \<Rightarrow> error + 'v" where
  "AttribDict_getattr self name =
     (if name \<in> dom self then dict_getitem self name
      else Inl (AttributeError (''No such attribute: '' @ name)))"

definition AttribDict_setattr :: "'v attribdict \<Rightarrow> string \<Rightarrow> 'v \<Rightarrow> 'v attribdict" where
  "AttribDict_setattr self name v = self(name \<mapsto> v)"

definition AttribDict_delattr :: "'v attribdict \<Rightarrow> string \<Rightarrow> error + 'v attribdict" where
  "AttribDict_delattr self name =
     (if name \<in> dom self then Inr (self(name := None))
      else Inl (AttributeError (''No such attribute: '' @ name)))"

text \<open>
  What the expression \<open>d.name\<close> evaluates to.  Python first looks the name up on the
  class; \<open>__getattr__\<close> is called only when that finds nothing.  \<open>class_attrs\<close> are the
  names the class lookup finds (the methods and special attributes of \<open>dict\<close> and of the
  subclass); an instance never gets an attribute of its own, since \<open>__setattr__\<close> stores
  every assignment in the mapping.
\<close>

datatype 'v attribute = Stored 'v | ClassAttribute string

definition attribute_get :: "string set \<Rightarrow> 'v attribdict \<Rightarrow> string \<Rightarrow> error + 'v attribute" where
  "attribute_get class_attrs self name =
     (if name \<in> class_attrs then Inr (ClassAttribute name)
      else (case AttribDict_getattr self name of
              Inl e \<Rightarrow> Inl e
            | Inr v \<Rightarrow> Inr (Stored v)))"

text \<open>The public methods every \<open>dict\<close> has.\<close>

definition dict_methods :: "string set" where
  "dict_methods =
     {''clear'', ''copy'', ''fromkeys'', ''get'', ''items'', ''keys'', ''pop'',
      ''popitem'', ''setdefault'', ''update'', ''values''}"


subsection \<open>Version\<close>

text \<open>
  Strings are Python strings of characters below U+0100.  Among these \<open>str.isdigit\<close>
  accepts the ten decimal digits and the superscripts two, three and one (U+00B2, U+00B3,
  U+00B9); \<open>int\<close> converts a string of decimal digits and raises \<open>ValueError\<close> for a
  superscript, and also for a string of more digits than the interpreter's limit
  (\<open>sys.get_int_max_str_digits()\<close>: 4300 unless set otherwise, 0 for no limit, never
  between 1 and 639; the interpreters before the limit was introduced behave as with
  0).  The pattern \<open>[A-Za-z]\<close> matches the ASCII letters.
\<close>

definition is_decimal :: "char \<Rightarrow> bool" where
  "is_decimal c = (c \<in> set ''0123456789'')"

definition is_digit :: "char \<Rightarrow> bool" where
  "is_digit c = (is_decimal c \<or> c = CHR 0xB2 \<or> c = CHR 0xB3 \<or> c = CHR 0xB9)"

definition isdigit :: "string \<Rightarrow> bool" where
  "isdigit x = (x \<noteq> [] \<and> list_all is_digit x)"

definition int_of_str :: "string \<Rightarrow> int" where
  "int_of_str x = foldl (\<lambda>n c. 10 * n + (int (of_char c) - 48)) 0 x"

fun str_of_nat :: "nat \<Rightarrow> string" where
  "str_of_nat n =
     (if n < 10 then [''0123456789'' ! n]
      else str_of_nat (n div 10) @ [''0123456789'' ! (n mod 10)])"

definition py_int :: "nat \<Rightarrow> string \<Rightarrow> error + int" where
  "py_int max_str_digits x =
     (if x = [] \<or> \<not> list_all is_decimal x then
        Inl (ValueError (''invalid literal for int() with base 10: '' @ [CHR 0x27] @ x @ [CHR 0x27]))
      else if 0 < max_str_digits \<and> max_str_digits < length x then
        Inl (ValueError (''Exceeds the limit ('' @ str_of_nat max_str_digits @
               '' digits) for integer string conversion: value has '' @ str_of_nat (length x) @
               '' digits; use sys.set_int_max_str_digits() to increase the limit''))
      else Inr (int_of_str x))"

definition is_letter :: "char \<Rightarrow> bool" where
  "is_letter c =
     (c \<in> set ''ABCDEFGHIJKLMNOPQRSTUVWXYZ'' \<or> c \<in> set ''abcdefghijklmnopqrstuvwxyz'')"

text \<open>The body of the loop of \<open>string_to_tuple\<close>: what one component becomes.\<close>

definition component_to_int :: "nat \<Rightarrow> string \<Rightarrow> error + int" where
  "component_to_int max_str_digits x =
     (if isdigit x then py_int max_str_digits x
      else
        let tmp = filter isdigit (split_on is_letter x)
        in if length tmp > 0 then py_int max_str_digits (hd tmp) else Inr 0)"

text \<open>The loop itself: the components are converted in order, and the first raise ends it.\<close>

fun components_to_ints :: "nat \<Rightarrow> string list \<Rightarrow> error + int list" where
  "components_to_ints max_str_digits [] = Inr []"
| "components_to_ints max_str_digits (x # nn) =
     (case component_to_int max_str_digits x of
        Inl e \<Rightarrow> Inl e
      | Inr n \<Rightarrow>
          (case components_to_ints max_str_digits nn of
             Inl e \<Rightarrow> Inl e
           | Inr ns \<Rightarrow> Inr (n # ns)))"

definition string_to_tuple :: "nat \<Rightarrow> string \<Rightarrow> error + int list" where
  "string_to_tuple max_str_digits vs = components_to_ints max_str_digits (str_split CHR ''.'' vs)"

record Version =
  version :: "int list"

definition Version_init :: "nat \<Rightarrow> string \<Rightarrow> error + Version" where
  "Version_init max_str_digits vs =
     (case string_to_tuple max_str_digits vs of
        Inl e \<Rightarrow> Inl e
      | Inr t \<Rightarrow> Inr \<lparr>version = t\<rparr>)"

text \<open>
  The comparison loops walk \<open>enumerate(self.version)\<close> and read \<open>c.version[k]\<close> at the
  same position, which raises \<open>IndexError\<close> once \<open>c.version\<close> is used up.
\<close>

fun eq_loop :: "int list \<Rightarrow> int list \<Rightarrow> error + bool" where
  "eq_loop [] cv = Inr True"
| "eq_loop (cur_n # rest) [] = Inl (IndexError ''tuple index out of range'')"
| "eq_loop (cur_n # rest) (c_k # cv) =
     (if cur_n \<noteq> c_k then Inr False else eq_loop rest cv)"

fun gt_loop :: "int list \<Rightarrow> int list \<Rightarrow> error + bool" where
  "gt_loop [] cv = Inr False"
| "gt_loop (cur_n # rest) [] = Inl (IndexError ''tuple index out of range'')"
| "gt_loop (cur_n # rest) (c_k # cv) =
     (if cur_n > c_k then Inr True
      else if cur_n \<noteq> c_k then Inr False
      else gt_loop rest cv)"

fun lt_loop :: "int list \<Rightarrow> int list \<Rightarrow> error + bool" where
  "lt_loop [] cv = Inr False"
| "lt_loop (cur_n # rest) [] = Inl (IndexError ''tuple index out of range'')"
| "lt_loop (cur_n # rest) (c_k # cv) =
     (if cur_n < c_k then Inr True
      else if cur_n \<noteq> c_k then Inr False
      else lt_loop rest cv)"

definition Version_eq :: "Version \<Rightarrow> Version \<Rightarrow> error + bool" where
  "Version_eq self c = eq_loop (version self) (version c)"

definition Version_ne :: "Version \<Rightarrow> Version \<Rightarrow> error + bool" where
  "Version_ne self c = map_sum id Not (Version_eq self c)"

definition Version_gt :: "Version \<Rightarrow> Version \<Rightarrow> error + bool" where
  "Version_gt self c = gt_loop (version self) (version c)"

definition Version_lt :: "Version \<Rightarrow> Version \<Rightarrow> error + bool" where
  "Version_lt self c = lt_loop (version self) (version c)"

text \<open>\<open>a or b\<close>: \<open>b\<close> is evaluated only when \<open>a\<close> returned \<open>False\<close>.\<close>

definition Version_ge :: "Version \<Rightarrow> Version \<Rightarrow> error + bool" where
  "Version_ge self c =
     (case Version_eq self c of
        Inl e \<Rightarrow> Inl e
      | Inr True \<Rightarrow> Inr True
      | Inr False \<Rightarrow> Version_gt self c)"

definition Version_le :: "Version \<Rightarrow> Version \<Rightarrow> error + bool" where
  "Version_le self c =
     (case Version_eq self c of
        Inl e \<Rightarrow> Inl e
      | Inr True \<Rightarrow> Inr True
      | Inr False \<Rightarrow> Version_lt self c)"

text \<open>
  The comparison the specification asks for instead: the standard comparison of two
  integer sequences (Python's comparison of tuples), which is lexicographic and puts a
  proper prefix before the longer sequence.
\<close>

fun tuple_lt :: "int list \<Rightarrow> int list \<Rightarrow> bool" where
  "tuple_lt [] [] = False"
| "tuple_lt [] (y # ys) = True"
| "tuple_lt (x # xs) [] = False"
| "tuple_lt (x # xs) (y # ys) = (if x = y then tuple_lt xs ys else x < y)"

definition tuple_eq :: "int list \<Rightarrow> int list \<Rightarrow> bool" where
  "tuple_eq xs ys = (xs = ys)"

definition tuple_gt :: "int list \<Rightarrow> int list \<Rightarrow> bool" where
  "tuple_gt xs ys = tuple_lt ys xs"

definition tuple_le :: "int list \<Rightarrow> int list \<Rightarrow> bool" where
  "tuple_le xs ys = (tuple_lt xs ys \<or> xs = ys)"

definition tuple_ge :: "int list \<Rightarrow> int list \<Rightarrow> bool" where
  "tuple_ge xs ys = (tuple_lt ys xs \<or> xs = ys)"

text \<open>One sequence is the beginning of the other and shorter than it.\<close>

fun proper_prefix :: "int list \<Rightarrow> int list \<Rightarrow> bool" where
  "proper_prefix [] [] = False"
| "proper_prefix [] (y # ys) = True"
| "proper_prefix (x # xs) [] = False"
| "proper_prefix (x # xs) (y # ys) = (x = y \<and> proper_prefix xs ys)"


section \<open>client.py\<close>

subsection \<open>Traces, the stream and the logger\<close>

text \<open>
  A trace as the client uses it: the identity and time fields of \<open>trace.stats\<close> and the
  samples.  \<open>trace_id\<close> is \<open>trace.id\<close>, the four codes joined by dots.
\<close>

type_synonym nslc = "string \<times> string \<times> string \<times> string"

record trace_stats =
  network :: string
  station :: string
  location :: string
  channel :: string
  starttime :: rat
  endtime :: rat

record trace =
  stats :: trace_stats
  data :: "int list"

definition trace_id :: "trace \<Rightarrow> string" where
  "trace_id tr =
     network (stats tr) @ ''.'' @ station (stats tr) @ ''.'' @
     location (stats tr) @ ''.'' @ channel (stats tr)"

datatype level = DEBUG | INFO | ERROR

datatype message = Text string | StrTrace trace | StrStream "trace list"

text \<open>
  The client: the recorder map (keys are the tuples \<open>('XX', serial, location, channel)\<close>,
  here lists of strings), the output directory, the incoming stream and what the logger
  has received.
\<close>

record client =
  recorder_map :: "string list \<rightharpoonup> nslc"
  data_dir :: string
  stream :: "trace list"
  logger :: "(level \<times> message) list"

definition logger_call :: "level \<Rightarrow> message \<Rightarrow> client \<Rightarrow> client" where
  "logger_call lv m self = self\<lparr>logger := logger self @ [(lv, m)]\<rparr>"

text \<open>
  The two critical sections on \<open>self.stream\<close>, each run with \<open>stream_lock\<close> held:
  the append of \<open>on_data\<close> and the copy-and-replace at the start of \<open>save_data\<close>.
\<close>

definition stream_append :: "client \<Rightarrow> trace \<Rightarrow> client" where
  "stream_append self tr = self\<lparr>stream := stream self @ [tr]\<rparr>"

definition drain :: "client \<Rightarrow> trace list \<times> client" where
  "drain self = (stream self, self\<lparr>stream := []\<rparr>)"


subsection \<open>on\_data\<close>

definition on_data :: "client \<Rightarrow> trace \<Rightarrow> client \<times> error option" where
  "on_data self tr =
     (let self1 = logger_call DEBUG (Text ''Received trace:'') self;
          self2 = logger_call DEBUG (StrTrace tr) self1;
          key = str_split CHR ''.'' (trace_id tr)
      in case recorder_map self2 key of
           None \<Rightarrow> (self2, Some (KeyError key))
         | Some (n, s, l, c) \<Rightarrow>
             (let tr' = tr\<lparr>stats := (stats tr)\<lparr>network := n, station := s,
                                                  location := l, channel := c\<rparr>\<rparr>;
                  self3 = logger_call DEBUG (Text ''Changed metadata:'') self2;
                  self4 = logger_call DEBUG (StrTrace tr') self3
              in (stream_append self4 tr', None)))"

text \<open>
  A run of the two buffer operations, as the receive path and the timer issue them one
  after the other: the results of the drains in order, and the client at the end.
\<close>

datatype buffer_op = Append trace | Drain

fun run_ops :: "client \<Rightarrow> buffer_op list \<Rightarrow> trace list list \<times> client" where
  "run_ops self [] = ([], self)"
| "run_ops self (Append tr # ops) = run_ops (stream_append self tr) ops"
| "run_ops self (Drain # ops) =
     (let (export_stream, self') = drain self;
          (drained, final) = run_ops self' ops
      in (export_stream # drained, final))"

fun appended :: "buffer_op list \<Rightarrow> trace list" where
  "appended [] = []"
| "appended (Append tr # ops) = tr # appended ops"
| "appended (Drain # ops) = appended ops"

text \<open>The batches appended after the last drain of a run.\<close>

fun pending :: "buffer_op list \<Rightarrow> trace list" where
  "pending [] = []"
| "pending (Append tr # ops) = (if Drain \<in> set ops then pending ops else tr # pending ops)"
| "pending (Drain # ops) = pending ops"


subsection \<open>save\_data\<close>

text \<open>
  What \<open>save_data\<close> calls outside this repository: \<open>Stream.merge\<close> (works in place, so
  it gives the new content of the stream, or raises), \<open>Stream.split\<close> (returns a new
  stream and leaves the one it is called on as it is), \<open>UTCDateTime.isoformat\<close>, and
  the MiniSEED writer behind \<open>Stream.write\<close>, which is given the files that exist, the
  stream and the path, and answers the files that exist afterwards and what it raised.
  The files are the set of their paths.
\<close>

record obspy =
  merge :: "trace list \<Rightarrow> error + trace list"
  split :: "trace list \<Rightarrow> trace list"
  isoformat :: "rat \<Rightarrow> string"
  stream_write :: "string set \<Rightarrow> trace list \<Rightarrow> string \<Rightarrow> string set \<times> error option"

definition str_remove :: "char \<Rightarrow> string \<Rightarrow> string" where
  "str_remove c s = filter (\<lambda>x. x \<noteq> c) s"

text \<open>\<open>os.path.join\<close> of two components, on a POSIX system.\<close>

definition path_join :: "string \<Rightarrow> string \<Rightarrow> string" where
  "path_join a b =
     (if b \<noteq> [] \<and> hd b = CHR ''/'' then b
      else if a = [] \<or> last a = CHR ''/'' then a @ b
      else a @ ''/'' @ b)"

text \<open>\<open>os.remove\<close>: raises when there is no file at the path.\<close>

definition os_remove :: "string set \<Rightarrow> string \<Rightarrow> error + string set" where
  "os_remove files path =
     (if path \<in> files then Inr (files - {path})
      else Inl (FileNotFoundError path))"

definition export_filename :: "obspy \<Rightarrow> rat \<Rightarrow> rat \<Rightarrow> string" where
  "export_filename lib cur_start cur_end =
     ''msstm_mseed_export'' @ ''_'' @ str_remove CHR '':'' (isoformat lib cur_start) @ ''_'' @
     str_remove CHR '':'' (isoformat lib cur_end) @ ''.msd''"

text \<open>
  \<open>save_data\<close>, from the client and the files that exist to the client and the files
  afterwards and the exception that leaves the method, if any.
\<close>

definition save_data :: "obspy \<Rightarrow> client \<Rightarrow> string set \<Rightarrow> client \<times> string set \<times> error option" where
  "save_data lib self files =
     (let self1 = logger_call INFO (Text ''Saving the data.'') self;
          (drained, self2) = drain self1
      in case merge lib drained of
           Inl e \<Rightarrow> (self2, files, Some e)
         | Inr export_stream \<Rightarrow>
             (let unused = split lib export_stream;
                  self3 = logger_call DEBUG (StrStream export_stream) self2
              in case py_min (map (\<lambda>x. starttime (stats x)) export_stream) of
                   Inl e \<Rightarrow> (self3, files, Some e)
                 | Inr cur_start \<Rightarrow>
                     (case py_max (map (\<lambda>x. endtime (stats x)) export_stream) of
                        Inl e \<Rightarrow> (self3, files, Some e)
                      | Inr cur_end \<Rightarrow>
                          (let cur_filename = export_filename lib cur_start cur_end;
                               cur_filepath = path_join (data_dir self3) cur_filename;
                               (files1, raised) = stream_write lib files export_stream cur_filepath
                           in case raised of
                                None \<Rightarrow> (self3, files1, None)
                              | Some (NotImplementedError m) \<Rightarrow>
                                  (logger_call ERROR (Text ''Error when writing the miniseed file with masked data. Clearing the stream and #going on.'') self3,
                                   files1, None)
                              | Some (ValueError m) \<Rightarrow>
                                  (let self4 = logger_call INFO (Text ''Not enough data to write a miniseed record.'') self3
                                   in case os_remove files1 cur_filepath of
                                        Inl e \<Rightarrow> (self4, files1, Some e)
                                      | Inr files2 \<Rightarrow> (self4, files2, None))
                              | Some e \<Rightarrow> (self3, files1, Some e)))))"


subsection \<open>get\_recorder\_mappings\<close>

text \<open>
  The inventory as the client sees it.  A channel carries its \<open>nslc\<close> and the time boxes
  that \<open>get_stream(start_time = now)\<close> answers when the map is built; a time box holds
  the recorder stream (its name, \<open>location:channel\<close>, and the serial number).  The
  inventory answers \<open>get_station\<close>: for \<open>None\<close> every station, for a network, name and
  location the stations that match.
\<close>

record recorder_stream =
  name :: string
  serial :: string

record timebox =
  item :: recorder_stream

record inv_channel =
  nslc :: nslc
  get_stream :: "timebox list"

record inv_station =
  channels :: "inv_channel list"

record inventory =
  get_station :: "(string \<times> string \<times> string) option \<Rightarrow> inv_station list"

text \<open>
  \<open>'{0:s}'.format(cur_nsl)\<close>: a requested station is a sequence of codes (a list, as
  the configuration file is read with \<open>json.loads\<close>), and a list refuses every
  non-empty format specification.
\<close>

definition format_s :: "string list \<Rightarrow> error + string" where
  "format_s cur_nsl = Inl (TypeError ''unsupported format string passed to list.__format__'')"

text \<open>The first loop: one station for every requested code.\<close>

fun resolve_stations ::
  "inventory \<Rightarrow> inv_station list \<Rightarrow> string list list \<Rightarrow> error + inv_station list" where
  "resolve_stations inventory station_list [] = Inr station_list"
| "resolve_stations inventory station_list (cur_nsl # rest) =
     (case cur_nsl of
        n # s # l # extra \<Rightarrow>
          (let cur_station = get_station inventory (Some (n, s, l))
           in if length cur_station > 1 then
                Inl (ValueError ''There are more than one stations. This is not yet supported.'')
              else if length cur_station = 0 then
                (case format_s cur_nsl of
                   Inl e \<Rightarrow> Inl e
                 | Inr txt \<Rightarrow> Inl (ValueError (''No station found for '' @ txt @ ''. Check the input file.'')))
              else resolve_stations inventory (station_list @ [hd cur_station]) rest)
      | short \<Rightarrow> Inl (IndexError ''list index out of range''))"

text \<open>The body of the inner loop: the entry of one channel.\<close>

definition map_channel ::
  "(string list \<rightharpoonup> nslc) \<Rightarrow> inv_channel \<Rightarrow> error + (string list \<rightharpoonup> nslc)" where
  "map_channel rmap cur_channel =
     (case get_stream cur_channel of
        [] \<Rightarrow> Inl (IndexError ''list index out of range'')
      | tb # others \<Rightarrow>
          (case str_split CHR '':'' (name (item tb)) of
             cur_loc # cur_chan # extra \<Rightarrow>
               Inr (rmap([''XX'', serial (item tb), cur_loc, cur_chan] \<mapsto> nslc cur_channel))
           | short \<Rightarrow> Inl (IndexError ''list index out of range'')))"

fun map_channels ::
  "(string list \<rightharpoonup> nslc) \<Rightarrow> inv_channel list \<Rightarrow> error + (string list \<rightharpoonup> nslc)" where
  "map_channels rmap [] = Inr rmap"
| "map_channels rmap (cur_channel # rest) =
     (case map_channel rmap cur_channel of
        Inl e \<Rightarrow> Inl e
      | Inr rmap' \<Rightarrow> map_channels rmap' rest)"

fun map_stations ::
  "(string list \<rightharpoonup> nslc) \<Rightarrow> inv_station list \<Rightarrow> error + (string list \<rightharpoonup> nslc)" where
  "map_stations rmap [] = Inr rmap"
| "map_stations rmap (cur_station # rest) =
     (case map_channels rmap (channels cur_station) of
        Inl e \<Rightarrow> Inl e
      | Inr rmap' \<Rightarrow> map_stations rmap' rest)"

text \<open>The station list: every station of the inventory, or the requested ones.\<close>

definition select_stations ::
  "inventory \<Rightarrow> string list list option \<Rightarrow> error + inv_station list" where
  "select_stations inventory station_nsl =
     (case station_nsl of
        None \<Rightarrow> Inr (get_station inventory None)
      | Some requested \<Rightarrow> resolve_stations inventory [] requested)"

text \<open>
  The whole method.  The map is a local variable until it is returned, so a raise
  leaves no map behind.  The closing debug line of the source is left out.
\<close>

definition get_recorder_mappings ::
  "inventory \<Rightarrow> string list list option \<Rightarrow> error + (string list \<rightharpoonup> nslc)" where
  "get_recorder_mappings inventory station_nsl =
     (case select_stations inventory station_nsl of
        Inl e \<Rightarrow> Inl e
      | Inr station_list \<Rightarrow> map_stations Map.empty station_list)"


section \<open>Example data\<close>

text \<open>
  A small installation, used where a statement is evaluated on a concrete input: one
  recorder, serial \<open>SN001\<close>, mapped to the channel \<open>NL.STA1.00.HHZ\<close>; raw traces as
  the server sends them, under the recorder's serial; and the library functions as they
  behave on these inputs (a stream of gapless traces, at most one per identifier, is left
  as it is by \<open>merge\<close> and \<open>split\<close>; \<open>isoformat\<close> is given for the whole seconds of the
  first minute of the epoch).  The writer is left open.
\<close>

definition raw_trace :: "string \<Rightarrow> rat \<Rightarrow> rat \<Rightarrow> int list \<Rightarrow> trace" where
  "raw_trace recorder t0 t1 samples =
     \<lparr>stats = \<lparr>network = ''XX'', station = recorder, location = ''00'', channel = ''HHZ'',
               starttime = t0, endtime = t1\<rparr>,
      data = samples\<rparr>"

definition example_map :: "string list \<rightharpoonup> nslc" where
  "example_map = [[''XX'', ''SN001'', ''00'', ''HHZ''] \<mapsto> (''NL'', ''STA1'', ''00'', ''HHZ'')]"

definition example_client :: "trace list \<Rightarrow> client" where
  "example_client traces =
     \<lparr>recorder_map = example_map, data_dir = ''/data'', stream = traces, logger = []\<rparr>"

definition isoformat_first_minute :: "rat \<Rightarrow> string" where
  "isoformat_first_minute t =
     (let n = nat \<lfloor>t\<rfloor>
      in ''1970-01-01T00:00:'' @ [''0123456789'' ! (n div 10), ''0123456789'' ! (n mod 10)])"

definition example_obspy ::
  "(string set \<Rightarrow> trace list \<Rightarrow> string \<Rightarrow> string set \<times> error option) \<Rightarrow> obspy" where
  "example_obspy writer =
     \<lparr>merge = Inr, split = (\<lambda>st. st), isoformat = isoformat_first_minute,
      stream_write = writer\<rparr>"

text \<open>A writer that raises \<open>ValueError\<close> after it has created the file.\<close>

definition writer_leaves_file :: "string set \<Rightarrow> trace list \<Rightarrow> string \<Rightarrow> string set \<times> error option" where
  "writer_leaves_file files st path = (insert path files, Some (ValueError ''no data written''))"

text \<open>
  An inventory with one station, \<open>NL.STA1.00\<close>, holding the given channels.  A request
  for the station name \<open>TWIN\<close> finds two stations, any other request none.
\<close>

definition bound_channel :: inv_channel where
  "bound_channel =
     \<lparr>nslc = (''NL'', ''STA1'', ''00'', ''HHZ''),
      get_stream = [\<lparr>item = \<lparr>name = ''00:HHZ'', serial = ''SN001''\<rparr>\<rparr>]\<rparr>"

definition unbound_channel :: inv_channel where
  "unbound_channel = \<lparr>nslc = (''NL'', ''STA1'', ''00'', ''HHN''), get_stream = []\<rparr>"

definition example_inventory :: "inv_channel list \<Rightarrow> inventory" where
  "example_inventory chans =
     \<lparr>get_station = (\<lambda>request.
        case request of
          None \<Rightarrow> [\<lparr>channels = chans\<rparr>]
        | Some (n, s, l) \<Rightarrow>
            if (n, s, l) = (''NL'', ''STA1'', ''00'') then [\<lparr>channels = chans\<rparr>]
            else if s = ''TWIN'' then [\<lparr>channels = chans\<rparr>, \<lparr>channels = chans\<rparr>]
            else [])\<rparr>"

section \<open>Properties\<close>

subsection \<open>Auxiliary facts\<close>

lemma loops_agree:
  "\<not> proper_prefix xs ys \<Longrightarrow> \<not> proper_prefix ys xs \<Longrightarrow>
     eq_loop xs ys = Inr (tuple_eq xs ys) \<and>
     gt_loop xs ys = Inr (tuple_gt xs ys) \<and>
     lt_loop xs ys = Inr (tuple_lt xs ys)"
  by (induction xs ys rule: proper_prefix.induct) (auto simp: tuple_eq_def tuple_gt_def)

lemma loops_self_shorter:
  "proper_prefix xs ys \<Longrightarrow>
     eq_loop xs ys = Inr True \<and> gt_loop xs ys = Inr False \<and> lt_loop xs ys = Inr False \<and>
     \<not> tuple_eq xs ys \<and> \<not> tuple_gt xs ys \<and> tuple_lt xs ys"
  by (induction xs ys rule: proper_prefix.induct) (auto simp: tuple_eq_def tuple_gt_def)

lemma loops_self_longer:
  "proper_prefix ys xs \<Longrightarrow>
     eq_loop xs ys = Inl (IndexError ''tuple index out of range'') \<and>
     gt_loop xs ys = Inl (IndexError ''tuple index out of range'') \<and>
     lt_loop xs ys = Inl (IndexError ''tuple index out of range'')"
  by (induction ys xs rule: proper_prefix.induct) auto

text \<open>
  Where neither version is a proper prefix of the other, the five comparisons return
  what the standard comparison of the sequences gives.
\<close>

lemma version_compare_unless_prefix:
  assumes "\<not> proper_prefix (version self) (version c)" and "\<not> proper_prefix (version c) (version self)"
  shows "Version_eq self c = Inr (tuple_eq (version self) (version c)) \<and>
         Version_gt self c = Inr (tuple_gt (version self) (version c)) \<and>
         Version_lt self c = Inr (tuple_lt (version self) (version c)) \<and>
         Version_ge self c = Inr (tuple_ge (version self) (version c)) \<and>
         Version_le self c = Inr (tuple_le (version self) (version c))"
  using loops_agree [OF assms]
  by (auto simp: Version_eq_def Version_gt_def Version_lt_def Version_ge_def Version_le_def
        tuple_ge_def tuple_le_def tuple_eq_def tuple_gt_def split: bool.splits)

lemma version_init_1_0: "Version_init m ''1.0'' = Inr \<lparr>version = [1, 0]\<rparr>"
  by (auto simp: Version_init_def string_to_tuple_def str_split_def component_to_int_def isdigit_def
       is_digit_def is_decimal_def py_int_def int_of_str_def)

lemma version_init_1_0_1: "Version_init m ''1.0.1'' = Inr \<lparr>version = [1, 0, 1]\<rparr>"
  by (auto simp: Version_init_def string_to_tuple_def str_split_def component_to_int_def isdigit_def
       is_digit_def is_decimal_def py_int_def int_of_str_def)

lemma run_ops_Drain:
  "run_ops self (Drain # ops) =
     (stream self # fst (run_ops (self\<lparr>stream := []\<rparr>) ops),
      snd (run_ops (self\<lparr>stream := []\<rparr>) ops))"
  by (simp add: drain_def split: prod.splits)

lemma run_ops_concat:
  "concat (fst (run_ops self ops)) @ stream (snd (run_ops self ops))
     = stream self @ appended ops"
proof (induction ops arbitrary: self)
  case Nil
  then show ?case by simp
next
  case (Cons op ops)
  show ?case
  proof (cases op)
    case (Append tr)
    then show ?thesis
      using Cons [of "stream_append self tr"] by (simp add: stream_append_def)
  next
    case Drain
    then show ?thesis
      using Cons [of "self\<lparr>stream := []\<rparr>"] by (simp add: run_ops_Drain del: run_ops.simps)
  qed
qed

lemma run_ops_pending:
  "stream (snd (run_ops self ops)) = (if Drain \<in> set ops then [] else stream self) @ pending ops"
proof (induction ops arbitrary: self)
  case Nil
  then show ?case by simp
next
  case (Cons op ops)
  show ?case
  proof (cases op)
    case (Append tr)
    then show ?thesis
      using Cons [of "stream_append self tr"] by (simp add: stream_append_def)
  next
    case Drain
    then show ?thesis
      using Cons [of "self\<lparr>stream := []\<rparr>"] by (simp add: run_ops_Drain del: run_ops.simps)
  qed
qed

lemma appended_append: "appended (ops @ ops') = appended ops @ appended ops'"
  by (induction ops rule: appended.induct) simp_all

lemma pending_ends_with_Drain: "pending (ops @ [Drain]) = []"
proof (induction ops)
  case Nil
  then show ?case by simp
next
  case (Cons op ops)
  then show ?case by (cases op) simp_all
qed

lemma run_ops_mset:
  "mset (concat (fst (run_ops self ops))) + mset (stream (snd (run_ops self ops)))
     = mset (stream self) + mset (appended ops)"
  using run_ops_concat [of self ops] by (metis mset_append)

lemma run_ops_distinct:
  assumes "distinct (stream self @ appended ops)"
  shows "distinct (concat (fst (run_ops self ops)) @ stream (snd (run_ops self ops)))"
  using assms run_ops_concat [of self ops] by simp

lemma map_channel_error:
  "map_channel m ch = Inl e \<Longrightarrow> e = IndexError ''list index out of range''"
  by (auto simp: map_channel_def split: list.splits)

lemma map_channels_error:
  "map_channels m chs = Inl e \<Longrightarrow> e = IndexError ''list index out of range''"
  by (induction chs arbitrary: m) (auto split: sum.splits dest: map_channel_error)

lemma map_channels_unbound:
  "ch \<in> set chs \<Longrightarrow> get_stream ch = [] \<Longrightarrow>
   map_channels m chs = Inl (IndexError ''list index out of range'')"
proof (induction chs arbitrary: m)
  case Nil
  then show ?case by simp
next
  case (Cons a chs)
  show ?case
  proof (cases "map_channel m a")
    case (Inl e)
    then show ?thesis using map_channel_error [OF Inl] by simp
  next
    case (Inr m')
    then have "a \<noteq> ch" using Cons.prems(2) by (auto simp: map_channel_def)
    then have "ch \<in> set chs" using Cons.prems(1) by simp
    then show ?thesis using Cons.IH [OF _ Cons.prems(2)] Inr by simp
  qed
qed

lemma map_stations_unbound:
  "st \<in> set sts \<Longrightarrow> ch \<in> set (channels st) \<Longrightarrow> get_stream ch = [] \<Longrightarrow>
   map_stations m sts = Inl (IndexError ''list index out of range'')"
proof (induction sts arbitrary: m)
  case Nil
  then show ?case by simp
next
  case (Cons a sts)
  show ?case
  proof (cases "map_channels m (channels a)")
    case (Inl e)
    then show ?thesis using map_channels_error [OF Inl] by simp
  next
    case (Inr m')
    then have "a \<noteq> st" using map_channels_unbound [OF Cons.prems(2,3), of m] by auto
    then have "st \<in> set sts" using Cons.prems(1) by simp
    then show ?thesis using Cons.IH [OF _ Cons.prems(2,3)] Inr by simp
  qed
qed

lemma resolve_stations_append:
  "resolve_stations inventory acc (pre @ rest) =
     (case resolve_stations inventory acc pre of
        Inl e \<Rightarrow> Inl e
      | Inr sl \<Rightarrow> resolve_stations inventory sl rest)"
  by (induction inventory acc pre rule: resolve_stations.induct)
     (auto split: list.splits sum.splits simp: Let_def)

text \<open>
  A request that holds a station with no match, or with more than one, never yields a
  map, wherever the station stands in the request.
\<close>

lemma resolve_stations_offender:
  "x \<in> set requested \<Longrightarrow> x = n # s # l # extra \<Longrightarrow>
   length (get_station inventory (Some (n, s, l))) \<noteq> 1 \<Longrightarrow>
   \<exists>e. resolve_stations inventory acc requested = Inl e"
  by (induction inventory acc requested rule: resolve_stations.induct)
     (auto split: list.splits sum.splits simp: Let_def format_s_def simp flip: length_greater_0_conv)

lemma no_map_for_offender:
  "x \<in> set requested \<Longrightarrow> x = n # s # l # extra \<Longrightarrow>
   length (get_station inventory (Some (n, s, l))) \<noteq> 1 \<Longrightarrow>
   \<exists>e. get_recorder_mappings inventory (Some requested) = Inl e"
  using resolve_stations_offender [of x requested n s l extra inventory "[]"]
  by (auto simp: get_recorder_mappings_def select_stations_def)

lemma py_mod_range:
  assumes "0 < m"
  shows "0 \<le> py_mod x m" and "py_mod x m < of_int m"
proof -
  have m: "(0::rat) < of_int m" using assms by simp
  have "of_int \<lfloor>x / of_int m\<rfloor> \<le> x / of_int m" by simp
  then have "of_int \<lfloor>x / of_int m\<rfloor> * of_int m \<le> x"
    by (simp only: pos_le_divide_eq [OF m])
  then show "0 \<le> py_mod x m" by (simp add: py_mod_def)
  have "x / of_int m < of_int \<lfloor>x / of_int m\<rfloor> + 1" by linarith
  then have "x < (of_int \<lfloor>x / of_int m\<rfloor> + 1) * of_int m"
    by (simp only: pos_divide_less_eq [OF m])
  then show "py_mod x m < of_int m" by (simp add: py_mod_def algebra_simps)
qed

lemma sleep_to_boundary:
  assumes "0 < interval"
  shows "\<exists>d. delay_to_next_interval interval c = Inr d \<and>
             sleep c d = Inr (next_boundary interval c)"
proof -
  let ?d = "of_int interval - py_mod c interval"
  have r: "0 \<le> py_mod c interval" "py_mod c interval < of_int interval"
    using py_mod_range [OF assms] by auto
  have "c + ?d = next_boundary interval c"
    by (simp add: py_mod_def next_boundary_def algebra_simps)
  moreover have "delay_to_next_interval interval c = Inr ?d"
    using assms by (simp add: delay_to_next_interval_def)
  moreover have "sleep c ?d = Inr (c + ?d)" using r by (simp add: sleep_def)
  ultimately show ?thesis by simp
qed

lemma next_boundary_aligned:
  assumes "0 < interval"
  shows "aligned_after interval c (next_boundary interval c)"
proof -
  have r: "0 \<le> py_mod c interval" "py_mod c interval < of_int interval"
    using py_mod_range [OF assms] by auto
  have e: "next_boundary interval c = c + (of_int interval - py_mod c interval)"
    by (simp add: py_mod_def next_boundary_def algebra_simps)
  have "\<exists>k. next_boundary interval c = of_int (k * interval)"
    unfolding next_boundary_def by blast
  then show ?thesis
    unfolding aligned_after_def using r e by auto
qed

lemma aligned_after_unique:
  assumes "0 < interval" and "aligned_after interval c t"
  shows "t = next_boundary interval c"
proof -
  have i: "(0::rat) < of_int interval" using assms(1) by simp
  obtain k where k: "t = of_int (k * interval)" and lo: "c < t" and hi: "t \<le> c + of_int interval"
    using assms(2) unfolding aligned_after_def by blast
  have t: "t = of_int k * of_int interval" using k by simp
  have "c / of_int interval < of_int k"
    using lo t i by (simp add: pos_divide_less_eq)
  moreover have "of_int k * of_int interval \<le> (c / of_int interval + 1) * of_int interval"
    using hi t i by (simp add: algebra_simps)
  then have "of_int k \<le> c / of_int interval + 1"
    using i by (simp only: mult_le_cancel_right_pos)
  ultimately have "\<lfloor>c / of_int interval\<rfloor> = k - 1"
    by (intro floor_unique) simp_all
  then show ?thesis using k by (simp add: next_boundary_def)
qed

lemma timer_loop_stopped:
  "stop_event s \<Longrightarrow> fst (timer_loop n interval callback stop_set s) = [] \<and>
     (\<forall>e. snd (snd (timer_loop n interval callback stop_set s)) \<noteq> Raised e)"
  by (cases n) simp_all

lemma timer_loop_schedule:
  assumes "0 < interval"
  shows "fst (timer_loop n interval callback stop_set \<lparr>clock = next_boundary interval c, stop_event = False\<rparr>)
           = schedule n interval callback stop_set c \<and>
         (\<forall>e. snd (snd (timer_loop n interval callback stop_set
                  \<lparr>clock = next_boundary interval c, stop_event = False\<rparr>)) \<noteq> Raised e)"
proof (induction n arbitrary: c)
  case 0
  then show ?case by simp
next
  case (Suc n)
  let ?b = "next_boundary interval c"
  show ?case
  proof (cases "stop_set ?b")
    case True
    then show ?thesis by simp
  next
    case False
    obtain fin raised where cb: "callback ?b = (fin, raised)"
      by (cases "callback ?b")
    obtain d where d: "delay_to_next_interval interval fin = Inr d"
        "sleep fin d = Inr (next_boundary interval fin)"
      using sleep_to_boundary [OF assms, of fin] by blast
    show ?thesis
    proof (cases raised)
      case True
      then show ?thesis
        using False cb d
          timer_loop_stopped [of "\<lparr>clock = next_boundary interval fin, stop_event = True\<rparr>" n interval callback stop_set]
        by (auto split: prod.splits)
    next
      case r: False
      then show ?thesis
        using False cb d Suc.IH [of fin] by (auto split: prod.splits)
    qed
  qed
qed

lemma schedule_hd:
  "schedule n interval callback stop_set c \<noteq> [] \<Longrightarrow>
   hd (schedule n interval callback stop_set c) = next_boundary interval c"
  by (cases n) (auto simp: Let_def split: if_splits)

lemma schedule_fires:
  "0 < n \<Longrightarrow> \<not> stop_set (next_boundary interval c) \<Longrightarrow>
   schedule n interval callback stop_set c \<noteq> []"
  by (cases n) (auto simp: Let_def)

lemma schedule_successively:
  assumes "0 < interval"
  shows "successively (\<lambda>t t'. aligned_after interval (fst (callback t)) t')
           (schedule n interval callback stop_set c)"
proof (induction n arbitrary: c)
  case 0
  then show ?case by simp
next
  case (Suc n)
  let ?b = "next_boundary interval c"
  let ?rest = "schedule n interval callback stop_set (fst (callback ?b))"
  have "?rest \<noteq> [] \<longrightarrow> aligned_after interval (fst (callback ?b)) (hd ?rest)"
    using schedule_hd [of n interval callback stop_set "fst (callback ?b)"]
      next_boundary_aligned [OF assms, of "fst (callback ?b)"] by simp
  then show ?case
    using Suc.IH [of "fst (callback ?b)"] by (auto simp: Let_def successively_Cons)
qed

lemma example_obspy_sel:
  "merge (example_obspy w) = Inr" "stream_write (example_obspy w) = w"
  by (simp_all add: example_obspy_def)

lemma example_path:
  "path_join ''/data'' (export_filename (example_obspy w) 0 9) =
     ''/data/msstm_mseed_export_1970-01-01T000000_1970-01-01T000009.msd''"
  by code_simp

lemma example_keys:
  "str_split CHR ''.'' (trace_id (raw_trace ''SN001'' t0 t1 d)) = [''XX'', ''SN001'', ''00'', ''HHZ'']"
  "str_split CHR ''.'' (trace_id (raw_trace ''SN999'' t0 t1 d)) = [''XX'', ''SN999'', ''00'', ''HHZ'']"
  by (simp_all add: str_split_def trace_id_def raw_trace_def)


subsection \<open>The write cycle on an empty stream\<close>

text \<open>
  Claim C1.  When nothing was appended since the last drain, \<open>save_data\<close> is said to
  write no file and to return without an error.  The first half holds: the files are
  untouched and the writer is never reached.  The second does not: \<open>min\<close> is applied to
  the empty list of start times outside the \<open>try\<close>, so the method raises
  \<open>ValueError\<close>, whatever the writer would have done.
\<close>

theorem save_data_empty_raises:
  assumes "merge lib [] = Inr []" and "stream self = []"
  shows "save_data lib self files =
     (self\<lparr>logger := logger self @ [(INFO, Text ''Saving the data.''), (DEBUG, StrStream [])]\<rparr>,
      files, Some (ValueError ''min() arg is an empty sequence''))"
  using assms by (simp add: save_data_def drain_def logger_call_def)

theorem save_data_empty_raises_witness:
  "merge (example_obspy writer_leaves_file) [] = Inr [] \<and>
   stream (example_client []) = [] \<and>
   save_data (example_obspy writer_leaves_file) (example_client []) {} =
     ((example_client [])\<lparr>logger := logger (example_client []) @
         [(INFO, Text ''Saving the data.''), (DEBUG, StrStream [])]\<rparr>,
      {}, Some (ValueError ''min() arg is an empty sequence''))"
proof -
  have m: "merge (example_obspy writer_leaves_file) [] = Inr []"
    by (simp add: example_obspy_sel)
  have s: "stream (example_client []) = []"
    by (simp add: example_client_def)
  show ?thesis
    using m s save_data_empty_raises [OF m s, of "{}"] by simp
qed


subsection \<open>The ingest buffer\<close>

text \<open>
  Claim C2, as amended.  Over any run of appends and drains on a buffer that starts
  empty: the batches handed out by the drains, in the order of the drains, followed by
  the batches still in the buffer at the end are exactly the appended batches in the
  order of their arrival, each as often as it was appended; what is still in the buffer
  at the end are the batches appended after the last drain; so when the run ends with
  a drain the buffer is empty and the drains have handed out every appended batch; and
  when the appended batches are pairwise different, no batch is handed out twice,
  neither by two drains nor by one.
\<close>

theorem buffer_no_loss:
  "stream self = [] \<Longrightarrow>
     concat (fst (run_ops self ops)) @ stream (snd (run_ops self ops)) = appended ops \<and>
     stream (snd (run_ops self ops)) = pending ops \<and>
     mset (concat (fst (run_ops self ops))) + mset (stream (snd (run_ops self ops)))
       = mset (appended ops) \<and>
     stream (snd (run_ops self (ops @ [Drain]))) = [] \<and>
     mset (concat (fst (run_ops self (ops @ [Drain])))) = mset (appended ops) \<and>
     (distinct (appended ops) \<longrightarrow> distinct (concat (fst (run_ops self ops))))"
proof -
  assume e: "stream self = []"
  have a: "concat (fst (run_ops self ops)) @ stream (snd (run_ops self ops)) = appended ops"
    using run_ops_concat [of self ops] e by simp
  have b: "stream (snd (run_ops self ops)) = pending ops"
    using run_ops_pending [of self ops] e by simp
  have c: "stream (snd (run_ops self (ops @ [Drain]))) = []"
    using run_ops_pending [of self "ops @ [Drain]"] by (simp add: pending_ends_with_Drain)
  have d: "concat (fst (run_ops self (ops @ [Drain]))) = appended ops"
    using run_ops_concat [of self "ops @ [Drain]"] c e by (simp add: appended_append)
  have f: "distinct (appended ops) \<longrightarrow> distinct (concat (fst (run_ops self ops)))"
    using run_ops_distinct [of self ops] e by simp
  show ?thesis
    using a b c d f run_ops_mset [of self ops] e by simp
qed

theorem buffer_no_loss_witness:
  "stream (example_client []) = [] \<and>
   distinct (appended
      [Append (raw_trace ''SN001'' 0 9 [1]), Drain, Append (raw_trace ''SN001'' 10 19 [2]),
       Append (raw_trace ''SN001'' 20 29 [3]), Drain, Append (raw_trace ''SN001'' 30 39 [4])]) \<and>
   fst (run_ops (example_client [])
      [Append (raw_trace ''SN001'' 0 9 [1]), Drain, Append (raw_trace ''SN001'' 10 19 [2]),
       Append (raw_trace ''SN001'' 20 29 [3]), Drain, Append (raw_trace ''SN001'' 30 39 [4])]) =
     [[raw_trace ''SN001'' 0 9 [1]], [raw_trace ''SN001'' 10 19 [2], raw_trace ''SN001'' 20 29 [3]]] \<and>
   stream (snd (run_ops (example_client [])
      [Append (raw_trace ''SN001'' 0 9 [1]), Drain, Append (raw_trace ''SN001'' 10 19 [2]),
       Append (raw_trace ''SN001'' 20 29 [3]), Drain, Append (raw_trace ''SN001'' 30 39 [4])])) =
     pending
      [Append (raw_trace ''SN001'' 0 9 [1]), Drain, Append (raw_trace ''SN001'' 10 19 [2]),
       Append (raw_trace ''SN001'' 20 29 [3]), Drain, Append (raw_trace ''SN001'' 30 39 [4])] \<and>
   pending
      [Append (raw_trace ''SN001'' 0 9 [1]), Drain, Append (raw_trace ''SN001'' 10 19 [2]),
       Append (raw_trace ''SN001'' 20 29 [3]), Drain, Append (raw_trace ''SN001'' 30 39 [4])] =
     [raw_trace ''SN001'' 30 39 [4]] \<and>
   mset (concat (fst (run_ops (example_client [])
      ([Append (raw_trace ''SN001'' 0 9 [1]), Drain, Append (raw_trace ''SN001'' 10 19 [2]),
        Append (raw_trace ''SN001'' 20 29 [3]), Drain, Append (raw_trace ''SN001'' 30 39 [4])] @ [Drain])))) =
     mset (appended
      [Append (raw_trace ''SN001'' 0 9 [1]), Drain, Append (raw_trace ''SN001'' 10 19 [2]),
       Append (raw_trace ''SN001'' 20 29 [3]), Drain, Append (raw_trace ''SN001'' 30 39 [4])]) \<and>
   distinct (concat (fst (run_ops (example_client [])
      [Append (raw_trace ''SN001'' 0 9 [1]), Drain, Append (raw_trace ''SN001'' 10 19 [2]),
       Append (raw_trace ''SN001'' 20 29 [3]), Drain, Append (raw_trace ''SN001'' 30 39 [4])])))"
proof -
  let ?ops = "[Append (raw_trace ''SN001'' 0 9 [1]), Drain, Append (raw_trace ''SN001'' 10 19 [2]),
       Append (raw_trace ''SN001'' 20 29 [3]), Drain, Append (raw_trace ''SN001'' 30 39 [4])]"
  have s: "stream (example_client []) = []"
    by (simp add: example_client_def)
  have d: "distinct (appended ?ops)"
    by (simp add: raw_trace_def)
  have r: "fst (run_ops (example_client []) ?ops) =
     [[raw_trace ''SN001'' 0 9 [1]], [raw_trace ''SN001'' 10 19 [2], raw_trace ''SN001'' 20 29 [3]]]"
    by (simp add: drain_def stream_append_def example_client_def)
  have p: "pending ?ops = [raw_trace ''SN001'' 30 39 [4]]"
    by simp
  note t = buffer_no_loss [OF s, of ?ops]
  have f: "stream (snd (run_ops (example_client []) ?ops)) = pending ?ops"
    using t by (rule conjunct1 [OF conjunct2])
  have m: "mset (concat (fst (run_ops (example_client []) (?ops @ [Drain])))) = mset (appended ?ops)"
    using t by (rule conjunct1 [OF conjunct2 [OF conjunct2 [OF conjunct2 [OF conjunct2]]]])
  have i: "distinct (appended ?ops) \<longrightarrow> distinct (concat (fst (run_ops (example_client []) ?ops)))"
    using t by (rule conjunct2 [OF conjunct2 [OF conjunct2 [OF conjunct2 [OF conjunct2]]]])
  have n: "distinct (concat (fst (run_ops (example_client []) ?ops)))"
    using i d by (rule mp)
  show ?thesis
    by (intro conjI s d r f p m n)
qed

text \<open>
  The claim as written compares the drains alone with the appended batches.  A batch
  appended after the last drain is in no drain result.
\<close>

theorem buffer_undrained_counterexample:
  "mset (concat (fst (run_ops (example_client []) [Drain, Append (raw_trace ''SN001'' 0 9 [1])])))
     \<noteq> mset (appended [Drain, Append (raw_trace ''SN001'' 0 9 [1])])"
  by (simp add: drain_def stream_append_def example_client_def)


subsection \<open>A batch from an unmapped recorder\<close>

text \<open>
  Claim C3, as amended.  For a batch whose identifier is not a key of the recorder map,
  \<open>on_data\<close> raises \<open>KeyError\<close> with that identifier to its caller.  By then it has
  logged the two debug lines on the received trace and nothing about the error; the
  batch is not appended, and the stream and the map are as before.  A later call with
  a mapped batch on the same client returns normally and appends the remapped batch.
\<close>

theorem on_data_unmapped:
  "recorder_map self (str_split CHR ''.'' (trace_id tr)) = None \<Longrightarrow>
     on_data self tr =
       (self\<lparr>logger := logger self @ [(DEBUG, Text ''Received trace:''), (DEBUG, StrTrace tr)]\<rparr>,
        Some (KeyError (str_split CHR ''.'' (trace_id tr)))) \<and>
     (\<forall>tr2 n s l c.
        recorder_map self (str_split CHR ''.'' (trace_id tr2)) = Some (n, s, l, c) \<longrightarrow>
        snd (on_data (fst (on_data self tr)) tr2) = None \<and>
        stream (fst (on_data (fst (on_data self tr)) tr2)) =
          stream self @
          [tr2\<lparr>stats := (stats tr2)\<lparr>network := n, station := s, location := l, channel := c\<rparr>\<rparr>])"
  by (simp add: on_data_def logger_call_def stream_append_def Let_def)

theorem on_data_unmapped_witness:
  "recorder_map (example_client []) (str_split CHR ''.'' (trace_id (raw_trace ''SN999'' 0 9 [4, 5, 6]))) = None \<and>
   recorder_map (example_client []) (str_split CHR ''.'' (trace_id (raw_trace ''SN001'' 0 9 [1, 2, 3])))
     = Some (''NL'', ''STA1'', ''00'', ''HHZ'') \<and>
   snd (on_data (example_client []) (raw_trace ''SN999'' 0 9 [4, 5, 6]))
     = Some (KeyError [''XX'', ''SN999'', ''00'', ''HHZ'']) \<and>
   snd (on_data (fst (on_data (example_client []) (raw_trace ''SN999'' 0 9 [4, 5, 6])))
          (raw_trace ''SN001'' 0 9 [1, 2, 3])) = None \<and>
   stream (fst (on_data (fst (on_data (example_client []) (raw_trace ''SN999'' 0 9 [4, 5, 6])))
          (raw_trace ''SN001'' 0 9 [1, 2, 3]))) =
     [\<lparr>stats = \<lparr>network = ''NL'', station = ''STA1'', location = ''00'', channel = ''HHZ'',
                starttime = 0, endtime = 9\<rparr>,
       data = [1, 2, 3]\<rparr>]"
proof -
  have u: "recorder_map (example_client [])
             (str_split CHR ''.'' (trace_id (raw_trace ''SN999'' 0 9 [4, 5, 6]))) = None"
    by (simp add: example_keys example_client_def example_map_def)
  have k: "recorder_map (example_client [])
             (str_split CHR ''.'' (trace_id (raw_trace ''SN001'' 0 9 [1, 2, 3])))
           = Some (''NL'', ''STA1'', ''00'', ''HHZ'')"
    by (simp add: example_keys example_client_def example_map_def)
  have s: "stream (example_client []) = []"
    by (simp add: example_client_def)
  note t = on_data_unmapped [OF u]
  have r: "snd (on_data (example_client []) (raw_trace ''SN999'' 0 9 [4, 5, 6]))
             = Some (KeyError [''XX'', ''SN999'', ''00'', ''HHZ''])"
    using t by (simp add: example_keys)
  have a: "snd (on_data (fst (on_data (example_client []) (raw_trace ''SN999'' 0 9 [4, 5, 6])))
                 (raw_trace ''SN001'' 0 9 [1, 2, 3])) = None \<and>
           stream (fst (on_data (fst (on_data (example_client []) (raw_trace ''SN999'' 0 9 [4, 5, 6])))
                 (raw_trace ''SN001'' 0 9 [1, 2, 3]))) =
             stream (example_client []) @
             [(raw_trace ''SN001'' 0 9 [1, 2, 3])
                \<lparr>stats := (stats (raw_trace ''SN001'' 0 9 [1, 2, 3]))
                   \<lparr>network := ''NL'', station := ''STA1'', location := ''00'', channel := ''HHZ''\<rparr>\<rparr>]"
    using t k by blast
  have b: "(raw_trace ''SN001'' 0 9 [1, 2, 3])
                \<lparr>stats := (stats (raw_trace ''SN001'' 0 9 [1, 2, 3]))
                   \<lparr>network := ''NL'', station := ''STA1'', location := ''00'', channel := ''HHZ''\<rparr>\<rparr> =
           \<lparr>stats = \<lparr>network = ''NL'', station = ''STA1'', location = ''00'', channel = ''HHZ'',
                starttime = 0, endtime = 9\<rparr>,
            data = [1, 2, 3]\<rparr>"
    by (simp add: raw_trace_def)
  show ?thesis
    using u k r a s by (simp only: b append_Nil simp_thms)
qed

text \<open>
  The claim as written has the callback log the error and return.  On the example
  client a batch of the unknown recorder \<open>SN999\<close> makes \<open>on_data\<close> raise, and the log
  holds the two debug lines only.
\<close>

theorem on_data_unmapped_counterexample:
  "on_data (example_client []) (raw_trace ''SN999'' 0 9 [4, 5, 6]) =
     (\<lparr>recorder_map = example_map, data_dir = ''/data'', stream = [],
       logger = [(DEBUG, Text ''Received trace:''),
                 (DEBUG, StrTrace (raw_trace ''SN999'' 0 9 [4, 5, 6]))]\<rparr>,
      Some (KeyError [''XX'', ''SN999'', ''00'', ''HHZ'']))"
  by (simp add: on_data_def logger_call_def example_keys example_client_def example_map_def)


subsection \<open>A channel without a stream\<close>

text \<open>
  Claim C4, as amended.  When a channel of one of the selected stations has no stream
  assigned at the time of the query, \<open>get_recorder_mappings\<close> raises \<open>IndexError\<close>
  and returns no map: the channel is not skipped, and the channels after it are not
  looked at.
\<close>

theorem unbound_channel_fails:
  "select_stations inventory station_nsl = Inr station_list \<Longrightarrow>
   st \<in> set station_list \<Longrightarrow> ch \<in> set (channels st) \<Longrightarrow> get_stream ch = [] \<Longrightarrow>
   get_recorder_mappings inventory station_nsl = Inl (IndexError ''list index out of range'')"
  by (simp add: get_recorder_mappings_def map_stations_unbound)

theorem unbound_channel_fails_witness:
  "select_stations (example_inventory [bound_channel, unbound_channel]) (Some [[''NL'', ''STA1'', ''00'']])
     = Inr [\<lparr>channels = [bound_channel, unbound_channel]\<rparr>] \<and>
   \<lparr>channels = [bound_channel, unbound_channel]\<rparr> \<in> set [\<lparr>channels = [bound_channel, unbound_channel]\<rparr>] \<and>
   unbound_channel \<in> set (channels \<lparr>channels = [bound_channel, unbound_channel]\<rparr>) \<and>
   get_stream unbound_channel = [] \<and>
   get_recorder_mappings (example_inventory [bound_channel, unbound_channel]) (Some [[''NL'', ''STA1'', ''00'']])
     = Inl (IndexError ''list index out of range'')"
proof -
  have a: "select_stations (example_inventory [bound_channel, unbound_channel]) (Some [[''NL'', ''STA1'', ''00'']])
     = Inr [\<lparr>channels = [bound_channel, unbound_channel]\<rparr>]"
    by (simp add: select_stations_def example_inventory_def)
  have b: "\<lparr>channels = [bound_channel, unbound_channel]\<rparr> \<in> set [\<lparr>channels = [bound_channel, unbound_channel]\<rparr>]"
    by simp
  have c: "unbound_channel \<in> set (channels \<lparr>channels = [bound_channel, unbound_channel]\<rparr>)"
    by simp
  have d: "get_stream unbound_channel = []"
    by (simp add: unbound_channel_def)
  show ?thesis
    using a b c d unbound_channel_fails [OF a b c d] by blast
qed

text \<open>
  The claim as written has the build skip such a channel and go on.  With an unbound
  channel ahead of a bound one, the build of the whole inventory ends in the error.
\<close>

theorem unbound_channel_counterexample:
  "get_recorder_mappings (example_inventory [unbound_channel, bound_channel]) None
     = Inl (IndexError ''list index out of range'')"
  by (simp add: get_recorder_mappings_def select_stations_def example_inventory_def
        map_channel_def unbound_channel_def)


subsection \<open>Requested stations that the inventory cannot resolve\<close>

text \<open>
  Claim C5.  A requested station for which the inventory answers more than one station
  makes the build raise the \<open>ValueError\<close> on several stations; one for which it
  answers none makes it raise as well; in both cases no map is returned, since the
  stations are resolved before the first channel is entered (\<open>no_map_for_offender\<close>
  above has this for a station anywhere in the request).  Here the station is the first
  of the request that does not resolve to one station.  What is raised for no match is
  not the \<open>ValueError\<close> on the missing station that the source builds: formatting
  the requested codes with \<open>{0:s}\<close> raises \<open>TypeError\<close> first.
\<close>

theorem station_errors:
  "resolve_stations inventory [] pre = Inr sl \<Longrightarrow>
     (length (get_station inventory (Some (n, s, l))) > 1 \<longrightarrow>
        get_recorder_mappings inventory (Some (pre @ (n # s # l # extra) # post)) =
          Inl (ValueError ''There are more than one stations. This is not yet supported.'')) \<and>
     (length (get_station inventory (Some (n, s, l))) = 0 \<longrightarrow>
        get_recorder_mappings inventory (Some (pre @ (n # s # l # extra) # post)) =
          Inl (TypeError ''unsupported format string passed to list.__format__''))"
  by (simp add: get_recorder_mappings_def select_stations_def resolve_stations_append format_s_def)

theorem station_errors_witness:
  "resolve_stations (example_inventory [bound_channel]) [] [[''NL'', ''STA1'', ''00'']]
     = Inr [\<lparr>channels = [bound_channel]\<rparr>] \<and>
   length (get_station (example_inventory [bound_channel]) (Some (''NL'', ''TWIN'', ''00''))) > 1 \<and>
   get_recorder_mappings (example_inventory [bound_channel])
       (Some ([[''NL'', ''STA1'', ''00'']] @ (''NL'' # ''TWIN'' # ''00'' # []) # [])) =
     Inl (ValueError ''There are more than one stations. This is not yet supported.'') \<and>
   length (get_station (example_inventory [bound_channel]) (Some (''NL'', ''NOPE'', ''00''))) = 0 \<and>
   get_recorder_mappings (example_inventory [bound_channel])
       (Some ([[''NL'', ''STA1'', ''00'']] @ (''NL'' # ''NOPE'' # ''00'' # []) # [])) =
     Inl (TypeError ''unsupported format string passed to list.__format__'')"
proof -
  have r: "resolve_stations (example_inventory [bound_channel]) [] [[''NL'', ''STA1'', ''00'']]
     = Inr [\<lparr>channels = [bound_channel]\<rparr>]"
    by (simp add: example_inventory_def)
  have t: "length (get_station (example_inventory [bound_channel]) (Some (''NL'', ''TWIN'', ''00''))) > 1"
    by (simp add: example_inventory_def)
  have z: "length (get_station (example_inventory [bound_channel]) (Some (''NL'', ''NOPE'', ''00''))) = 0"
    by (simp add: example_inventory_def)
  show ?thesis
    using r t z
      station_errors [OF r, of "''NL''" "''TWIN''" "''00''" "[]" "[]"]
      station_errors [OF r, of "''NL''" "''NOPE''" "''00''" "[]" "[]"]
    by blast
qed


subsection \<open>The merge step\<close>

text \<open>
  Claim C6.  The claim has batches of one identifier that are separated by a gap stay
  separate runs.  In \<open>save_data\<close> the runs are cut at gaps by \<open>split\<close>, which returns
  them as a new stream, and the source drops that stream: what is measured, named and
  written is the stream as \<open>merge\<close> left it.  So \<open>save_data\<close> does the same whatever
  \<open>split\<close> returns.
\<close>

theorem save_data_ignores_split:
  "save_data (lib\<lparr>split := any_split\<rparr>) self files = save_data lib self files"
  by (simp add: save_data_def export_filename_def Let_def split: prod.splits sum.splits)


subsection \<open>The timer\<close>

text \<open>
  Claim C7.  For a positive interval the callback is invoked exactly on the schedule of
  the specification, and the timer itself never raises.  The first invocation is at the next
  multiple of the interval after the start time: no invocation is anywhere else, and
  there is one as soon as the stop signal is not set at that instant (and the run is
  followed for at least one boundary).  Every later invocation is at the next multiple
  of the interval after the time at which the invocation before it was done: the
  boundary is taken from the clock then, not from the boundary before.
  (\<open>aligned_after interval c t\<close>: \<open>t\<close> is that multiple for the clock value \<open>c\<close>.)
\<close>

theorem task_timer_aligned:
  assumes "0 < interval"
    and "task_timer fuel callback interval stop_set now = (ticks, s, ex)"
  shows "ticks = schedule fuel interval callback stop_set now \<and>
         (\<forall>e. ex \<noteq> Raised e) \<and>
         (\<forall>b. aligned_after interval now b \<longrightarrow>
              (ticks \<noteq> [] \<longrightarrow> hd ticks = b) \<and>
              (0 < fuel \<and> \<not> stop_set b \<longrightarrow> ticks \<noteq> [] \<and> hd ticks = b)) \<and>
         (\<forall>c. aligned_after interval c (next_boundary interval c)) \<and>
         (ticks \<noteq> [] \<longrightarrow> aligned_after interval now (hd ticks)) \<and>
         successively (\<lambda>t t'. aligned_after interval (fst (callback t)) t') ticks"
proof -
  obtain d where d: "delay_to_next_interval interval now = Inr d"
      "sleep now d = Inr (next_boundary interval now)"
    using sleep_to_boundary [OF assms(1), of now] by blast
  have tl: "timer_loop fuel interval callback stop_set
              \<lparr>clock = next_boundary interval now, stop_event = False\<rparr> = (ticks, s, ex)"
    using assms(2) d by (simp add: task_timer_def)
  have sch: "ticks = schedule fuel interval callback stop_set now" and ex: "\<forall>e. ex \<noteq> Raised e"
    using timer_loop_schedule [OF assms(1), of fuel callback stop_set now] tl by simp_all
  have first: "\<forall>b. aligned_after interval now b \<longrightarrow>
              (ticks \<noteq> [] \<longrightarrow> hd ticks = b) \<and>
              (0 < fuel \<and> \<not> stop_set b \<longrightarrow> ticks \<noteq> [] \<and> hd ticks = b)"
    using aligned_after_unique [OF assms(1), of now] schedule_hd [of fuel interval callback stop_set now]
      schedule_fires [of fuel stop_set interval now callback] sch
    by metis
  have al: "\<forall>c. aligned_after interval c (next_boundary interval c)"
    using next_boundary_aligned [OF assms(1)] by blast
  have hdal: "ticks \<noteq> [] \<longrightarrow> aligned_after interval now (hd ticks)"
    using schedule_hd [of fuel interval callback stop_set now] sch al by metis
  show ?thesis
    using sch ex first al hdal schedule_successively [OF assms(1), of callback fuel stop_set now]
    by blast
qed

text \<open>
  Started at 12:00:23 (43223 s) with an interval of 60 s and a callback that takes 70 s,
  the timer ticks at 12:01:00, 12:03:00 and 12:05:00.
\<close>

theorem task_timer_aligned_witness:
  "(0::int) < 60 \<and>
   task_timer 3 (\<lambda>t. (t + 70, False)) 60 (\<lambda>t. False) 43223 =
     ([43260, 43380, 43500], \<lparr>clock = 43620, stop_event = False\<rparr>, Running) \<and>
   [43260, 43380, 43500] = schedule 3 60 (\<lambda>t. (t + 70, False)) (\<lambda>t. False) 43223 \<and>
   aligned_after 60 43223 43260 \<and>
   (0::nat) < 3 \<and> \<not> (\<lambda>t::rat. False) 43260 \<and>
   [43260, 43380, 43500] \<noteq> ([] :: rat list) \<and>
   hd [43260, 43380, 43500] = (43260 :: rat) \<and>
   aligned_after 60 43223 (hd [43260, 43380, 43500]) \<and>
   successively (\<lambda>t t'. aligned_after 60 (fst (t + 70, False)) t') [43260, 43380, 43500]"
proof -
  have p: "(0::int) < 60" by simp
  have e: "task_timer 3 (\<lambda>t. (t + 70, False)) 60 (\<lambda>t. False) 43223 =
     ([43260, 43380, 43500], \<lparr>clock = 43620, stop_event = False\<rparr>, Running)"
    by code_simp
  have a: "aligned_after 60 43223 43260"
    unfolding aligned_after_def by (intro conjI exI [of _ 721]) simp_all
  note t = task_timer_aligned [OF p e]
  have c: "[43260, 43380, 43500] = schedule 3 60 (\<lambda>t. (t + 70, False)) (\<lambda>t. False) 43223"
    using t by (rule conjunct1)
  have u: "successively (\<lambda>t t'. aligned_after 60 (fst (t + 70, False)) t') [43260, 43380, 43500]"
    using t by (rule conjunct2 [OF conjunct2 [OF conjunct2 [OF conjunct2 [OF conjunct2]]]])
  have h: "hd [43260, 43380, 43500] = (43260 :: rat)" by simp
  have l: "aligned_after 60 43223 (hd [43260, 43380, 43500])"
    using a by (simp only: h)
  show ?thesis
    by (intro conjI p e c a l u) simp_all
qed


subsection \<open>Too little data for a record\<close>

text \<open>
  Claim C8.  In a cycle in which the writer raises \<open>ValueError\<close>, the error of too
  little data for a record, with the partial file at the output path, \<open>save_data\<close> logs
  the line on too little data at level \<open>INFO\<close>, removes that file and returns normally,
  the stream drained.
\<close>

theorem insufficient_data:
  assumes "merge lib (stream self) = Inr export_stream"
    and "py_min (map (\<lambda>x. starttime (stats x)) export_stream) = Inr cur_start"
    and "py_max (map (\<lambda>x. endtime (stats x)) export_stream) = Inr cur_end"
    and "cur_filepath = path_join (data_dir self) (export_filename lib cur_start cur_end)"
    and "stream_write lib files export_stream cur_filepath = (files1, Some (ValueError m))"
    and "cur_filepath \<in> files1"
  shows "save_data lib self files =
           (self\<lparr>stream := [],
                 logger := logger self @
                   [(INFO, Text ''Saving the data.''), (DEBUG, StrStream export_stream),
                    (INFO, Text ''Not enough data to write a miniseed record.'')]\<rparr>,
            files1 - {cur_filepath}, None)"
  using assms
  by (simp add: save_data_def drain_def logger_call_def os_remove_def)

theorem insufficient_data_witness:
  "merge (example_obspy writer_leaves_file) (stream (example_client [raw_trace ''SN001'' 0 9 [1, 2, 3]]))
     = Inr [raw_trace ''SN001'' 0 9 [1, 2, 3]] \<and>
   py_min (map (\<lambda>x. starttime (stats x)) [raw_trace ''SN001'' 0 9 [1, 2, 3]]) = Inr 0 \<and>
   py_max (map (\<lambda>x. endtime (stats x)) [raw_trace ''SN001'' 0 9 [1, 2, 3]]) = Inr 9 \<and>
   ''/data/msstm_mseed_export_1970-01-01T000000_1970-01-01T000009.msd'' =
     path_join (data_dir (example_client [raw_trace ''SN001'' 0 9 [1, 2, 3]]))
       (export_filename (example_obspy writer_leaves_file) 0 9) \<and>
   stream_write (example_obspy writer_leaves_file) {} [raw_trace ''SN001'' 0 9 [1, 2, 3]]
       ''/data/msstm_mseed_export_1970-01-01T000000_1970-01-01T000009.msd'' =
     ({''/data/msstm_mseed_export_1970-01-01T000000_1970-01-01T000009.msd''},
      Some (ValueError ''no data written'')) \<and>
   save_data (example_obspy writer_leaves_file) (example_client [raw_trace ''SN001'' 0 9 [1, 2, 3]]) {} =
     ((example_client [raw_trace ''SN001'' 0 9 [1, 2, 3]])
        \<lparr>stream := [],
         logger := logger (example_client [raw_trace ''SN001'' 0 9 [1, 2, 3]]) @
           [(INFO, Text ''Saving the data.''), (DEBUG, StrStream [raw_trace ''SN001'' 0 9 [1, 2, 3]]),
            (INFO, Text ''Not enough data to write a miniseed record.'')]\<rparr>,
      {''/data/msstm_mseed_export_1970-01-01T000000_1970-01-01T000009.msd''} -
        {''/data/msstm_mseed_export_1970-01-01T000000_1970-01-01T000009.msd''},
      None)"
proof -
  let ?tr = "raw_trace ''SN001'' 0 9 [1, 2, 3]"
  let ?p = "''/data/msstm_mseed_export_1970-01-01T000000_1970-01-01T000009.msd''"
  have a: "merge (example_obspy writer_leaves_file) (stream (example_client [?tr])) = Inr [?tr]"
    by (simp add: example_obspy_sel example_client_def)
  have b: "py_min (map (\<lambda>x. starttime (stats x)) [?tr]) = Inr 0"
    by (simp add: raw_trace_def)
  have c: "py_max (map (\<lambda>x. endtime (stats x)) [?tr]) = Inr 9"
    by (simp add: raw_trace_def)
  have d: "?p = path_join (data_dir (example_client [?tr])) (export_filename (example_obspy writer_leaves_file) 0 9)"
    by (simp add: example_client_def example_path)
  have e: "stream_write (example_obspy writer_leaves_file) {} [?tr] ?p = ({?p}, Some (ValueError ''no data written''))"
    by (simp add: example_obspy_sel writer_leaves_file_def)
  have f: "?p \<in> {?p}" by simp
  show ?thesis
    using a b c d e insufficient_data [OF a b c d e f] by blast
qed


subsection \<open>Comparing versions\<close>

text \<open>
  Claim C9.  The comparisons of \<open>Version\<close> are to give what the standard comparison
  of the integer sequences gives.  They do where neither sequence is a proper prefix of
  the other (\<open>version_compare_unless_prefix\<close> above).  The loops run over the
  components of the left version only, so for \<open>1.0\<close> and \<open>1.0.1\<close>, whatever the
  interpreter's digit limit: the shorter version equals the longer one, is not less than
  it and is greater or equal, against the sequences; and with the longer version on the
  left all five comparisons raise \<open>IndexError\<close>.
\<close>

theorem version_compare_prefix:
  "Version_init m ''1.0'' = Inr \<lparr>version = [1, 0]\<rparr> \<and>
   Version_init m ''1.0.1'' = Inr \<lparr>version = [1, 0, 1]\<rparr> \<and>
   Version_eq \<lparr>version = [1, 0]\<rparr> \<lparr>version = [1, 0, 1]\<rparr> = Inr True \<and>
   \<not> tuple_eq [1, 0] [1, 0, 1] \<and>
   Version_lt \<lparr>version = [1, 0]\<rparr> \<lparr>version = [1, 0, 1]\<rparr> = Inr False \<and>
   tuple_lt [1, 0] [1, 0, 1] \<and>
   Version_ge \<lparr>version = [1, 0]\<rparr> \<lparr>version = [1, 0, 1]\<rparr> = Inr True \<and>
   \<not> tuple_ge [1, 0] [1, 0, 1] \<and>
   Version_eq \<lparr>version = [1, 0, 1]\<rparr> \<lparr>version = [1, 0]\<rparr> = Inl (IndexError ''tuple index out of range'') \<and>
   Version_gt \<lparr>version = [1, 0, 1]\<rparr> \<lparr>version = [1, 0]\<rparr> = Inl (IndexError ''tuple index out of range'') \<and>
   Version_lt \<lparr>version = [1, 0, 1]\<rparr> \<lparr>version = [1, 0]\<rparr> = Inl (IndexError ''tuple index out of range'') \<and>
   Version_ge \<lparr>version = [1, 0, 1]\<rparr> \<lparr>version = [1, 0]\<rparr> = Inl (IndexError ''tuple index out of range'') \<and>
   Version_le \<lparr>version = [1, 0, 1]\<rparr> \<lparr>version = [1, 0]\<rparr> = Inl (IndexError ''tuple index out of range'')"
  by (simp add: version_init_1_0 version_init_1_0_1 Version_eq_def Version_gt_def Version_lt_def
        Version_ge_def Version_le_def tuple_eq_def tuple_ge_def)


subsection \<open>Attribute access and item access\<close>

text \<open>
  Claim C10, as amended.  For a name that the class lookup does not find (a name that
  is not a method or special attribute of \<open>dict\<close>): after \<open>d.name = v\<close>, both \<open>d.name\<close>
  and \<open>d[name]\<close> give \<open>v\<close>; when the name is not a key, \<open>d.name\<close> and \<open>del d.name\<close>
  raise \<open>AttributeError\<close>; and \<open>d.name\<close> gives a value exactly when \<open>d[name]\<close> gives it.
\<close>

theorem attribdict_agree:
  "nm \<notin> class_attrs \<Longrightarrow>
     attribute_get class_attrs (AttribDict_setattr d nm v) nm = Inr (Stored v) \<and>
     dict_getitem (AttribDict_setattr d nm v) nm = Inr v \<and>
     (d nm = None \<longrightarrow>
        attribute_get class_attrs d nm = Inl (AttributeError (''No such attribute: '' @ nm)) \<and>
        AttribDict_delattr d nm = Inl (AttributeError (''No such attribute: '' @ nm))) \<and>
     (\<forall>w. attribute_get class_attrs d nm = Inr (Stored w) \<longleftrightarrow> dict_getitem d nm = Inr w)"
  by (auto simp: attribute_get_def AttribDict_getattr_def AttribDict_setattr_def
        AttribDict_delattr_def dict_getitem_def dom_def split: option.splits sum.splits)

theorem attribdict_agree_witness:
  "''interval'' \<notin> dict_methods \<and>
   (Map.empty :: int attribdict) ''interval'' = None \<and>
   attribute_get dict_methods (AttribDict_setattr Map.empty ''interval'' (60::int)) ''interval'' = Inr (Stored 60) \<and>
   dict_getitem (AttribDict_setattr Map.empty ''interval'' (60::int)) ''interval'' = Inr 60 \<and>
   attribute_get dict_methods (Map.empty :: int attribdict) ''interval'' =
     Inl (AttributeError ''No such attribute: interval'') \<and>
   AttribDict_delattr (Map.empty :: int attribdict) ''interval'' =
     Inl (AttributeError ''No such attribute: interval'')"
proof -
  have h: "''interval'' \<notin> dict_methods" by (simp add: dict_methods_def)
  show ?thesis
    using h attribdict_agree [OF h, of "Map.empty" "60::int"] by simp
qed

text \<open>
  The claim as written is for every name.  For \<open>keys\<close>, a method of \<open>dict\<close>: after
  \<open>d.keys = 5\<close> the item \<open>d['keys']\<close> is \<open>5\<close> while \<open>d.keys\<close> is still the method, and on
  a dictionary without that key \<open>d.keys\<close> gives the method and raises nothing.
\<close>

theorem attribdict_agree_counterexample:
  "attribute_get dict_methods (AttribDict_setattr Map.empty ''keys'' (5::int)) ''keys''
     = Inr (ClassAttribute ''keys'') \<and>
   dict_getitem (AttribDict_setattr Map.empty ''keys'' (5::int)) ''keys'' = Inr 5 \<and>
   attribute_get dict_methods (Map.empty :: int attribdict) ''keys'' = Inr (ClassAttribute ''keys'')"
  by (simp add: attribute_get_def dict_methods_def dict_getitem_def AttribDict_setattr_def)

end

